theory Spec2Isabelle
  imports Main
begin

text \<open>
  A model of the FTP bridge to the STACK shared-folder API: the file system class
  \<open>StackFileSystem\<close>, the attribute class \<open>StackStats\<close> and the login handler of the
  server. Every operation is a function of the session and, where it talks to the
  remote API, of the remote's state; it returns its result or the error it throws,
  together with the log records and HTTP requests it produced.
\<close>

section \<open>JavaScript values and library functions used by the bridge\<close>

text \<open>
  Errors thrown (or promises rejected) are values. \<open>Error m\<close> is \<open>new Error(m)\<close>,
  \<open>TypeError c\<close> is the \<open>TypeError\<close> that Node's argument validation raises (with its
  error code), and \<open>RequestError m\<close> is the error with which the promisified \<open>request\<close>
  call rejects when the HTTP exchange itself fails (no response was received).
\<close>

datatype js_error = Error string | TypeError string | RequestError string

text \<open>Values that appear in log records, query strings, forms and headers.\<close>

datatype js_value = JStr string | JNum int | JUndefined

subsection \<open>String.prototype.indexOf, lastIndexOf and substr\<close>

primrec indexOf :: "string \<Rightarrow> char \<Rightarrow> int" where
  "indexOf [] c = - 1"
| "indexOf (x # xs) c =
     (if x = c then 0 else (let r = indexOf xs c in if r < 0 then - 1 else r + 1))"

definition lastIndexOf :: "string \<Rightarrow> char \<Rightarrow> int" where
  "lastIndexOf s c =
     (let r = indexOf (rev s) c in if r < 0 then - 1 else int (length s) - 1 - r)"

text \<open>
  \<open>s.substr(start, length)\<close>: a negative start counts from the end, a missing length
  (\<open>None\<close>) means up to the end, a length that is not positive gives the empty string.
\<close>

definition substr :: "string \<Rightarrow> int \<Rightarrow> int option \<Rightarrow> string" where
  "substr s start len =
     (let n = int (length s);
          b = (if start < 0 then max (n + start) 0 else min start n);
          l = (case len of None \<Rightarrow> n - b | Some k \<Rightarrow> min (max k 0) (n - b))
      in take (nat l) (drop (nat b) s))"

subsection \<open>path.posix.join of Node.js\<close>

text \<open>
  \<open>path.posix.join(...args)\<close> checks that every argument is a string (a \<open>TypeError\<close>
  otherwise), glues the non-empty arguments together with \<open>/\<close> and normalises the
  outcome; no argument, or only empty ones, give \<open>.\<close>. Normalisation works on the
  segments between slashes: empty segments and \<open>.\<close> vanish, \<open>..\<close> removes the segment
  before it, is dropped at the root of an absolute path, and is kept at the front of a
  relative one. A trailing slash survives. An argument that starts with \<open>/\<close> is glued
  like any other: it does not restart the path.
\<close>

fun split_on :: "char \<Rightarrow> string \<Rightarrow> string list" where
  "split_on c [] = [[]]"
| "split_on c (x # xs) =
     (if x = c then [] # split_on c xs
      else (case split_on c xs of [] \<Rightarrow> [[x]] | y # ys \<Rightarrow> (x # y) # ys))"

fun join_with :: "string \<Rightarrow> string list \<Rightarrow> string" where
  "join_with sep [] = []"
| "join_with sep [s] = s"
| "join_with sep (s # t # ss) = s @ sep @ join_with sep (t # ss)"

text \<open>
  The segments kept so far are held in reverse (\<open>acc\<close>); \<open>allowAboveRoot\<close> is true
  for a relative path.
\<close>

fun normalizeSegments :: "bool \<Rightarrow> string list \<Rightarrow> string list \<Rightarrow> string list" where
  "normalizeSegments allowAboveRoot acc [] = rev acc"
| "normalizeSegments allowAboveRoot acc (s # ss) =
     (if s = [] \<or> s = ''.'' then normalizeSegments allowAboveRoot acc ss
      else if s = ''..'' then
        (case acc of
           [] \<Rightarrow> normalizeSegments allowAboveRoot (if allowAboveRoot then [''..''] else []) ss
         | t # ts \<Rightarrow>
             if t = ''..''
             then normalizeSegments allowAboveRoot (if allowAboveRoot then ''..'' # acc else acc) ss
             else normalizeSegments allowAboveRoot ts ss)
      else normalizeSegments allowAboveRoot (s # acc) ss)"

definition posix_normalize :: "string \<Rightarrow> string" where
  "posix_normalize p =
     (if p = [] then ''.''
      else
        (let isAbsolute = (hd p = CHR ''/'');
             trailingSeparator = (last p = CHR ''/'');
             res = join_with ''/'' (normalizeSegments (\<not> isAbsolute) [] (split_on CHR ''/'' p))
         in if res = [] then (if isAbsolute then ''/'' else if trailingSeparator then ''./'' else ''.'')
            else (if isAbsolute then ''/'' else []) @ res @ (if trailingSeparator then ''/'' else [])))"

text \<open>
  The loop of \<open>join\<close> over its arguments; \<open>joined\<close> is \<open>None\<close> while it is still
  \<open>undefined\<close>. An argument that is \<open>undefined\<close> (\<open>None\<close>) fails the string check.
\<close>

fun join_args :: "string option list \<Rightarrow> string option \<Rightarrow> js_error + string option" where
  "join_args [] joined = Inr joined"
| "join_args (None # args) joined = Inl (TypeError ''ERR_INVALID_ARG_TYPE'')"
| "join_args (Some arg # args) joined =
     (if arg \<noteq> []
      then join_args args (case joined of None \<Rightarrow> Some arg | Some j \<Rightarrow> Some (j @ ''/'' @ arg))
      else join_args args joined)"

definition posix_join :: "string option list \<Rightarrow> js_error + string" where
  "posix_join args =
     (if args = [] then Inr ''.''
      else (case join_args args None of
              Inl e \<Rightarrow> Inl e
            | Inr None \<Rightarrow> Inr ''.''
            | Inr (Some joined) \<Rightarrow> Inr (posix_normalize joined)))"

section \<open>stack-stats.ts\<close>

text \<open>
  One record of the listing endpoint (\<open>interface StackApiStats\<close>). JavaScript numbers
  are taken as integers here: identifiers, sizes and Unix seconds.
\<close>

record StackApiStats =
  fileId :: int
  path :: string
  mimetype :: string
  etag :: string
  shareToken :: string
  expirationDate :: string
  hasSharePassword :: bool
  shareTime :: int
  canUpload :: bool
  fileSize :: int
  isFavorited :: bool
  mtime :: int
  isPreviewable :: bool
  mediaType :: string
  width :: int
  height :: int

text \<open>
  \<open>class StackStats\<close>: the fields its constructor assigns. \<open>stats_mtime\<close> is the
  \<open>Date\<close>, as milliseconds since the epoch. The other declared fields (\<open>dev\<close>,
  \<open>mode\<close>, \<open>nlink\<close>, ...) are never assigned and are left out.
\<close>

record StackStats =
  stats_mimetype :: string
  stats_ino :: int
  stats_size :: int
  stats_mtime :: int
  stats_name :: string

definition new_StackStats :: "StackApiStats \<Rightarrow> StackStats" where
  "new_StackStats stat =
     \<lparr> stats_mimetype = mimetype stat,
       stats_ino = fileId stat,
       stats_size = fileSize stat,
       stats_mtime = mtime stat * 1000,
       stats_name = substr (path stat) (lastIndexOf (path stat) CHR ''/'' + 1) None \<rparr>"

definition isDirectory :: "StackStats \<Rightarrow> bool" where
  "isDirectory s = (stats_mimetype s = ''httpd/unix-directory'')"

definition isFile :: "StackStats \<Rightarrow> bool" where
  "isFile s = (\<not> isDirectory s)"

definition isBlockDevice :: "StackStats \<Rightarrow> bool" where
  "isBlockDevice s = False"

definition isCharacterDevice :: "StackStats \<Rightarrow> bool" where
  "isCharacterDevice s = False"

definition isSymbolicLink :: "StackStats \<Rightarrow> bool" where
  "isSymbolicLink s = False"

definition isFIFO :: "StackStats \<Rightarrow> bool" where
  "isFIFO s = False"

definition isSocket :: "StackStats \<Rightarrow> bool" where
  "isSocket s = False"

section \<open>The remote API and the effects of an operation\<close>

text \<open>
  An HTTP request as handed to the \<open>request\<close> library: the options object of the
  source, field by field (absent options are empty lists).
\<close>

record http_request =
  req_baseUrl :: string
  req_url :: string
  req_method :: string
  req_jar :: "string list"
  req_json :: bool
  req_form :: "(string \<times> js_value) list"
  req_qs :: "(string \<times> js_value) list"
  req_headers :: "(string \<times> js_value) list"

text \<open>
  What a response carries for this program: the status, the headers, the cookies it
  sets, and the parsed body. \<open>res_body = None\<close> is a body that is falsy or has no
  fields; \<open>nodes = None\<close> is a body without a (truthy) \<open>nodes\<close> field. An empty array
  is truthy: \<open>nodes = Some []\<close>.
\<close>

record list_body =
  nodes :: "StackApiStats list option"

record http_response =
  statusCode :: int
  res_headers :: "(string \<times> string) list"
  res_cookies :: "string list"
  res_body :: "list_body option"

text \<open>
  The remote API is a state machine the program talks to: given its state and a
  request it answers with a response, or the exchange fails (\<open>Inl\<close>), and moves on.
\<close>

type_synonym 'r remote = "'r \<Rightarrow> http_request \<Rightarrow> (js_error + http_response) \<times> 'r"

text \<open>
  What an operation does besides returning: log records (\<open>logger.info\<close>) and HTTP
  requests, in the order they happen.
\<close>

datatype event = Log "(string \<times> js_value) list" | Http http_request

fun is_Http :: "event \<Rightarrow> bool" where
  "is_Http (Http q) = True"
| "is_Http (Log l) = False"

section \<open>stack-file-system.ts\<close>

record FtpConnection =
  conn_id :: string

text \<open>
  \<open>class StackFileSystem\<close>. \<open>csrfToken\<close> is what \<open>res.headers['csrf-token']\<close> gave:
  a string, or \<open>undefined\<close> when the header is missing. \<open>cookieJar\<close> holds the cookies
  the login response set; cookies of later responses are read by no operation and are
  not tracked.
\<close>

record StackFileSystem =
  connection :: FtpConnection
  root :: string
  workingDir :: string
  baseUrl :: string
  csrfToken :: js_value
  cookieJar :: "string list"

definition maxFiles :: nat where
  "maxFiles = 100"

definition login_request :: "string \<Rightarrow> string \<Rightarrow> http_request" where
  "login_request url password =
     \<lparr> req_baseUrl = url, req_url = ''info/'', req_method = ''POST'', req_jar = [],
       req_json = False, req_form = [(''password'', JStr password)], req_qs = [],
       req_headers = [] \<rparr>"

definition login_failed :: "string \<Rightarrow> js_error" where
  "login_failed username =
     Error (''STACK login failed for user '' @ [CHR 0x27] @ username @ [CHR 0x27] @ ''.'')"

definition create ::
  "'r remote \<Rightarrow> FtpConnection \<Rightarrow> string \<Rightarrow> string \<Rightarrow> 'r
     \<Rightarrow> (js_error + StackFileSystem) \<times> 'r \<times> event list" where
  "create remote conn username password r =
     (let at = indexOf username CHR ''@'';
          share = substr username 0 (Some at);
          domain = substr username (at + 1) None;
          url = ''https://'' @ domain @ ''/public-share/'' @ share @ ''/'';
          req = login_request url password;
          evs = [Log [(''action'', JStr ''create''), (''username'', JStr username)], Http req]
      in case remote r req of
           (Inl e, r') \<Rightarrow> (Inl e, r', evs)
         | (Inr res, r') \<Rightarrow>
             if statusCode res \<noteq> 200 then (Inl (login_failed username), r', evs)
             else (Inr \<lparr> connection = conn, root = ''/'', workingDir = ''/'', baseUrl = url,
                         csrfToken = (case map_of (res_headers res) ''csrf-token'' of
                                        None \<Rightarrow> JUndefined | Some t \<Rightarrow> JStr t),
                         cookieJar = res_cookies res \<rparr>, r', evs))"

definition cwd :: "StackFileSystem \<Rightarrow> string" where
  "cwd fs = workingDir fs"

definition currentDirectory :: "StackFileSystem \<Rightarrow> string" where
  "currentDirectory fs = cwd fs"

definition log_path :: "StackFileSystem \<Rightarrow> string \<Rightarrow> string \<Rightarrow> event" where
  "log_path fs action p =
     Log [(''client'', JStr (conn_id (connection fs))), (''action'', JStr action),
          (''path'', JStr p)]"

text \<open>The object \<open>get\<close> returns: \<open>{ isDirectory: () => true }\<close>.\<close>

record get_result =
  get_isDirectory :: bool

definition get :: "StackFileSystem \<Rightarrow> string \<Rightarrow> (js_error + get_result) \<times> event list" where
  "get fs fileName =
     (case posix_join [Some (cwd fs), Some fileName] of
        Inl e \<Rightarrow> (Inl e, [])
      | Inr clientPath \<Rightarrow>
          (Inr \<lparr> get_isDirectory = True \<rparr>, [log_path fs ''get'' clientPath]))"

definition list_request :: "StackFileSystem \<Rightarrow> string \<Rightarrow> nat \<Rightarrow> http_request" where
  "list_request fs clientPath i =
     \<lparr> req_baseUrl = baseUrl fs, req_url = ''list'', req_method = ''GET'',
       req_jar = cookieJar fs, req_json = True, req_form = [],
       req_qs = [(''type'', JStr ''folder''), (''offset'', JNum (int (i * maxFiles))),
                 (''limit'', JNum (int maxFiles)), (''sortBy'', JStr ''default''),
                 (''order'', JStr ''asc''), (''dir'', JStr clientPath)],
       req_headers = [] \<rparr>"

text \<open>
  \<open>res.body && res.body.nodes\<close>: the node list, when the body and its \<open>nodes\<close> are both
  there.
\<close>

definition body_nodes :: "http_response \<Rightarrow> StackApiStats list option" where
  "body_nodes res = (case res_body res of None \<Rightarrow> None | Some b \<Rightarrow> nodes b)"

text \<open>
  The state of the loop in \<open>list\<close>: the remote's state, \<open>i\<close>, \<open>nodes\<close>, \<open>fetched\<close> and
  the events so far. What a call returns: the listing or the error it is rejected
  with, the remote's state and the events.
\<close>

type_synonym 'r list_state = "'r \<times> nat \<times> StackStats list \<times> nat \<times> event list"

type_synonym 'r list_outcome = "(js_error + StackStats list) \<times> 'r \<times> event list"

text \<open>
  One pass through \<open>do { ... } while (fetched === maxFiles)\<close>: the body, then the
  test. \<open>Inl\<close> ends the call, \<open>Inr\<close> is the state for the next pass. A failed exchange
  rejects the whole call. A response without \<open>body.nodes\<close> changes none of \<open>i\<close>,
  \<open>nodes\<close>, \<open>fetched\<close>, so the test sees the count of the page before.
\<close>

definition list_pass ::
  "'r remote \<Rightarrow> StackFileSystem \<Rightarrow> string \<Rightarrow> 'r list_state \<Rightarrow> 'r list_outcome + 'r list_state" where
  "list_pass remote fs clientPath st =
     (case st of (r, i, nds, fetched, evs) \<Rightarrow>
        (case remote r (list_request fs clientPath i) of
           (Inl e, r') \<Rightarrow> Inl (Inl e, r', evs @ [Http (list_request fs clientPath i)])
         | (Inr res, r') \<Rightarrow>
             (case (case body_nodes res of
                      None \<Rightarrow> (i, nds, fetched)
                    | Some ns \<Rightarrow> (i + 1, nds @ map new_StackStats ns, length ns))
              of (i', nds', fetched') \<Rightarrow>
                if fetched' = maxFiles
                then Inr (r', i', nds', fetched', evs @ [Http (list_request fs clientPath i)])
                else Inl (Inr nds', r', evs @ [Http (list_request fs clientPath i)]))))"

text \<open>
  The loop. After a full page, a remote that keeps answering without \<open>body.nodes\<close> is
  asked for the same offset again and again: the loop need not end, and \<open>None\<close> stands
  for a call that never returns.
\<close>

partial_function (option) list_loop ::
  "'r remote \<Rightarrow> StackFileSystem \<Rightarrow> string \<Rightarrow> 'r list_state \<Rightarrow> 'r list_outcome option" where
  "list_loop remote fs clientPath st =
     (case list_pass remote fs clientPath st of
        Inl outcome \<Rightarrow> Some outcome
      | Inr st' \<Rightarrow> list_loop remote fs clientPath st')"

text \<open>The first \<open>k\<close> passes of the loop, or its outcome when it ends before.\<close>

fun list_passes ::
  "'r remote \<Rightarrow> StackFileSystem \<Rightarrow> string \<Rightarrow> nat \<Rightarrow> 'r list_state
     \<Rightarrow> 'r list_outcome + 'r list_state" where
  "list_passes remote fs clientPath 0 st = Inr st"
| "list_passes remote fs clientPath (Suc k) st =
     (case list_pass remote fs clientPath st of
        Inl outcome \<Rightarrow> Inl outcome
      | Inr st' \<Rightarrow> list_passes remote fs clientPath k st')"

definition list ::
  "'r remote \<Rightarrow> StackFileSystem \<Rightarrow> string option \<Rightarrow> 'r \<Rightarrow> 'r list_outcome option" where
  "list remote fs fileName r =
     (case posix_join [Some (cwd fs), fileName] of
        Inl e \<Rightarrow> Some (Inl e, r, [])
      | Inr clientPath \<Rightarrow>
          list_loop remote fs clientPath (r, 0, [], 0, [log_path fs ''list'' clientPath]))"

definition chdir ::
  "StackFileSystem \<Rightarrow> string option \<Rightarrow> (js_error + string) \<times> StackFileSystem \<times> event list" where
  "chdir fs fileName =
     (case posix_join [Some (root fs), fileName] of
        Inl e \<Rightarrow> (Inl e, fs, [])
      | Inr p \<Rightarrow>
          (let fs' = fs \<lparr> workingDir := p \<rparr>
           in (Inr (cwd fs'), fs', [log_path fs' ''cwd'' (cwd fs')])))"

text \<open>
  \<open>write\<close> of the source (the name is taken in Isabelle). It returns the stream, piped
  into the upload request, and the path.
\<close>

record write_result =
  stream_piped_to :: http_request
  clientPath :: string

definition upload_request :: "StackFileSystem \<Rightarrow> string \<Rightarrow> http_request" where
  "upload_request fs p =
     \<lparr> req_baseUrl = baseUrl fs, req_url = ''upload'' @ p, req_method = ''PUT'',
       req_jar = cookieJar fs, req_json = False, req_form = [], req_qs = [],
       req_headers = [(''CSRF-Token'', csrfToken fs)] \<rparr>"

definition write_stream :: "StackFileSystem \<Rightarrow> string \<Rightarrow> (js_error + write_result) \<times> event list" where
  "write_stream fs fileName =
     (case posix_join [Some (cwd fs), Some fileName] of
        Inl e \<Rightarrow> (Inl e, [])
      | Inr p \<Rightarrow>
          (Inr \<lparr> stream_piped_to = upload_request fs p, clientPath = p \<rparr>,
           [log_path fs ''write'' p, Http (upload_request fs p)]))"

definition download_request :: "StackFileSystem \<Rightarrow> string \<Rightarrow> http_request" where
  "download_request fs p =
     \<lparr> req_baseUrl = baseUrl fs, req_url = ''download'', req_method = ''POST'',
       req_jar = cookieJar fs, req_json = False,
       req_form = [(''CSRF-Token'', csrfToken fs), (''paths[]'', JStr p)], req_qs = [],
       req_headers = [] \<rparr>"

text \<open>\<open>read\<close> returns the download request itself: its response is the stream.\<close>

definition read :: "StackFileSystem \<Rightarrow> string \<Rightarrow> (js_error + http_request) \<times> event list" where
  "read fs fileName =
     (case posix_join [Some (cwd fs), Some fileName] of
        Inl e \<Rightarrow> (Inl e, [])
      | Inr p \<Rightarrow>
          (Inr (download_request fs p), [log_path fs ''read'' p, Http (download_request fs p)]))"

definition not_implemented :: js_error where
  "not_implemented = Error ''Method not implemented.''"

definition delete :: "StackFileSystem \<Rightarrow> string \<Rightarrow> (js_error + unit) \<times> event list" where
  "delete fs fileName =
     (case posix_join [Some (cwd fs), Some fileName] of
        Inl e \<Rightarrow> (Inl e, [])
      | Inr p \<Rightarrow> (Inl not_implemented, [log_path fs ''delete'' p]))"

definition mkdir :: "StackFileSystem \<Rightarrow> string \<Rightarrow> (js_error + unit) \<times> event list" where
  "mkdir fs fileName =
     (case posix_join [Some (cwd fs), Some fileName] of
        Inl e \<Rightarrow> (Inl e, [])
      | Inr p \<Rightarrow> (Inl not_implemented, [log_path fs ''mkdir'' p]))"

definition rename :: "StackFileSystem \<Rightarrow> string \<Rightarrow> string \<Rightarrow> (js_error + unit) \<times> event list" where
  "rename fs from_name to =
     (case posix_join [Some (cwd fs), Some from_name] of
        Inl e \<Rightarrow> (Inl e, [])
      | Inr fromPath \<Rightarrow>
          (case posix_join [Some (cwd fs), Some to] of
             Inl e \<Rightarrow> (Inl e, [])
           | Inr toPath \<Rightarrow>
               (Inl not_implemented,
                [Log [(''client'', JStr (conn_id (connection fs))), (''action'', JStr ''rename''),
                      (''from'', JStr fromPath), (''to'', JStr toPath)]])))"

definition chmod :: "StackFileSystem \<Rightarrow> string \<Rightarrow> string \<Rightarrow> (js_error + unit) \<times> event list" where
  "chmod fs fileName mode =
     (case posix_join [Some (cwd fs), Some fileName] of
        Inl e \<Rightarrow> (Inl e, [])
      | Inr p \<Rightarrow>
          (Inl not_implemented,
           [Log [(''client'', JStr (conn_id (connection fs))), (''action'', JStr ''chmod''),
                 (''path'', JStr p), (''mode'', JStr mode)]]))"

definition getUniqueName :: "StackFileSystem \<Rightarrow> (js_error + string) \<times> event list" where
  "getUniqueName fs =
     (Inl not_implemented,
      [Log [(''client'', JStr (conn_id (connection fs))), (''action'', JStr ''unique-name'')]])"

section \<open>The login handler of the server\<close>

record login_data =
  data_connection :: FtpConnection
  data_username :: string
  data_password :: string

text \<open>The handler ends by calling \<open>resolve({ fs })\<close> or \<open>reject(e)\<close>.\<close>

datatype login_outcome = Resolve StackFileSystem | Reject js_error

definition on_login :: "'r remote \<Rightarrow> login_data \<Rightarrow> 'r \<Rightarrow> login_outcome \<times> 'r \<times> event list" where
  "on_login remote data r =
     (case create remote (data_connection data) (data_username data) (data_password data) r of
        (Inr fs, r', evs) \<Rightarrow> (Resolve fs, r', evs)
      | (Inl e, r', evs) \<Rightarrow> (Reject e, r', evs))"

section \<open>Remotes and sessions used in examples\<close>

text \<open>
  A remote that answers from a fixed script, whatever is asked; once the script is
  used up the exchange fails.
\<close>

definition scripted :: "(js_error + http_response) list remote" where
  "scripted rs req =
     (case rs of [] \<Rightarrow> (Inl (RequestError ''ECONNRESET''), []) | x # xs \<Rightarrow> (x, xs))"

text \<open>A successful listing response with the given records.\<close>

definition page :: "StackApiStats list \<Rightarrow> http_response" where
  "page ns =
     \<lparr> statusCode = 200, res_headers = [], res_cookies = [],
       res_body = Some \<lparr> nodes = Some ns \<rparr> \<rparr>"

text \<open>A response with the given status and a body that has no \<open>nodes\<close>.\<close>

definition status_only :: "int \<Rightarrow> http_response" where
  "status_only code =
     \<lparr> statusCode = code, res_headers = [], res_cookies = [], res_body = None \<rparr>"

text \<open>The answers of a remote to a sequence of requests, and its state afterwards.\<close>

fun answers :: "'r remote \<Rightarrow> 'r \<Rightarrow> http_request list \<Rightarrow> (js_error + http_response) list \<times> 'r" where
  "answers remote r [] = ([], r)"
| "answers remote r (q # qs) =
     (case remote r q of (a, r1) \<Rightarrow>
        (case answers remote r1 qs of (as, r2) \<Rightarrow> (a # as, r2)))"

definition a_file :: StackApiStats where
  "a_file =
     \<lparr> fileId = 7, path = ''/docs/report.pdf'', mimetype = ''application/pdf'', etag = ''e'',
       shareToken = ''docs'', expirationDate = [], hasSharePassword = True, shareTime = 0,
       canUpload = True, fileSize = 1024, isFavorited = False, mtime = 1600000000,
       isPreviewable = False, mediaType = ''document'', width = 0, height = 0 \<rparr>"

text \<open>An authenticated session whose working directory is \<open>dir\<close>.\<close>

definition session_at :: "string \<Rightarrow> StackFileSystem" where
  "session_at dir =
     \<lparr> connection = \<lparr> conn_id = ''conn-1'' \<rparr>, root = ''/'', workingDir = dir,
       baseUrl = ''https://stack.example.com/public-share/docs/'', csrfToken = JStr ''token'',
       cookieJar = [''session=1''] \<rparr>"

text \<open>A sequence of \<open>chdir\<close> calls, each on the session the one before left.\<close>

fun chdir_all :: "StackFileSystem \<Rightarrow> string list \<Rightarrow> StackFileSystem" where
  "chdir_all fs [] = fs"
| "chdir_all fs (t # ts) = chdir_all (fst (snd (chdir fs (Some t)))) ts"

text \<open>
  Path resolution as the specification words it, for comparison: an absolute target
  replaces the working directory, a relative one is appended to it, and the outcome is
  normalised.
\<close>

definition spec_resolve :: "string \<Rightarrow> string \<Rightarrow> string" where
  "spec_resolve dir target =
     (if target \<noteq> [] \<and> hd target = CHR ''/'' then posix_normalize target
      else posix_normalize (dir @ ''/'' @ target))"

fun spec_changeDirectory_all :: "string \<Rightarrow> string list \<Rightarrow> string" where
  "spec_changeDirectory_all dir [] = dir"
| "spec_changeDirectory_all dir (t # ts) = spec_changeDirectory_all (spec_resolve dir t) ts"

section \<open>Path resolution\<close>

lemma posix_join_two:
  "\<exists>p. posix_join [Some a, Some b] = Inr p"
  by (simp add: posix_join_def split: option.split)

text \<open>The examples of the Node.js documentation.\<close>

lemma posix_join_documented:
  "posix_join [Some ''/foo'', Some ''bar'', Some ''baz/asdf'', Some ''quux'', Some ''..'']
     = Inr ''/foo/bar/baz/asdf''
   \<and> posix_normalize ''/foo/bar//baz/asdf/quux/..'' = ''/foo/bar/baz/asdf''"
  by (simp add: posix_join_def posix_normalize_def)

lemma posix_join_undefined:
  "posix_join [Some a, None] = Inl (TypeError ''ERR_INVALID_ARG_TYPE'')"
  by (simp add: posix_join_def)

section \<open>The attribute adapter\<close>

text \<open>
  C7. For every remote file record, \<open>isDirectory\<close> of its \<open>StackStats\<close> holds exactly
  when the record's mimetype is \<open>httpd/unix-directory\<close>; the symbolic-link,
  block-device, character-device, socket and FIFO predicates are false for every
  \<open>StackStats\<close> object.
\<close>

theorem isDirectory_iff_sentinel:
  "isDirectory (new_StackStats stat) = (mimetype stat = ''httpd/unix-directory'')
   \<and> \<not> isSymbolicLink s \<and> \<not> isBlockDevice s \<and> \<not> isCharacterDevice s
   \<and> \<not> isSocket s \<and> \<not> isFIFO s"
  by (simp add: isDirectory_def new_StackStats_def isSymbolicLink_def isBlockDevice_def
      isCharacterDevice_def isSocket_def isFIFO_def)

section \<open>Operations that never reach the remote\<close>

text \<open>
  C9. For every file name, \<open>get\<close> succeeds, issues no HTTP request, and returns an
  object whose \<open>isDirectory()\<close> is true, whatever the path is.
\<close>

theorem get_always_directory:
  "fst (get fs fileName) = Inr \<lparr> get_isDirectory = True \<rparr>
   \<and> filter is_Http (snd (get fs fileName)) = []"
proof -
  obtain p where "posix_join [Some (cwd fs), Some fileName] = Inr p"
    using posix_join_two by blast
  then show ?thesis
    by (simp add: get_def log_path_def)
qed

text \<open>
  C10. With the target omitted (\<open>undefined\<close>), \<open>list\<close> and \<open>chdir\<close> fail with the
  \<open>TypeError\<close> of path resolution: \<open>list\<close> issues no request, \<open>chdir\<close> leaves the
  session as it was, and neither falls back to the working directory.
\<close>

theorem omitted_target_TypeError:
  "list remote fs None r = Some (Inl (TypeError ''ERR_INVALID_ARG_TYPE''), r, [])
   \<and> chdir fs None = (Inl (TypeError ''ERR_INVALID_ARG_TYPE''), fs, [])"
  by (simp add: list_def chdir_def posix_join_undefined)

text \<open>
  C8. \<open>delete\<close>, \<open>mkdir\<close>, \<open>rename\<close> and \<open>chmod\<close> join their path arguments onto the
  working directory, write the outcome to the log, and fail with
  \<open>Error('Method not implemented.')\<close>; \<open>getUniqueName\<close>, which has no path argument,
  logs its action and fails the same way. None of them succeeds, none issues an HTTP
  request, and the error differs from the error of a failed login for every user name.
\<close>

theorem unsupported_operations:
  "(\<exists>p. posix_join [Some (cwd fs), Some f] = Inr p
        \<and> delete fs f = (Inl not_implemented, [log_path fs ''delete'' p]))
   \<and> (\<exists>p. posix_join [Some (cwd fs), Some f] = Inr p
        \<and> mkdir fs f = (Inl not_implemented, [log_path fs ''mkdir'' p]))
   \<and> (\<exists>p q. posix_join [Some (cwd fs), Some f] = Inr p
        \<and> posix_join [Some (cwd fs), Some g] = Inr q
        \<and> rename fs f g =
            (Inl not_implemented,
             [Log [(''client'', JStr (conn_id (connection fs))), (''action'', JStr ''rename''),
                   (''from'', JStr p), (''to'', JStr q)]]))
   \<and> (\<exists>p. posix_join [Some (cwd fs), Some f] = Inr p
        \<and> chmod fs f m =
            (Inl not_implemented,
             [Log [(''client'', JStr (conn_id (connection fs))), (''action'', JStr ''chmod''),
                   (''path'', JStr p), (''mode'', JStr m)]]))
   \<and> getUniqueName fs =
        (Inl not_implemented,
         [Log [(''client'', JStr (conn_id (connection fs))), (''action'', JStr ''unique-name'')]])
   \<and> filter is_Http (snd (delete fs f) @ snd (mkdir fs f) @ snd (rename fs f g)
        @ snd (chmod fs f m) @ snd (getUniqueName fs)) = []
   \<and> not_implemented = Error ''Method not implemented.''
   \<and> (\<forall>u. not_implemented \<noteq> login_failed u)"
proof -
  obtain p where p: "posix_join [Some (cwd fs), Some f] = Inr p"
    using posix_join_two by blast
  obtain q where q: "posix_join [Some (cwd fs), Some g] = Inr q"
    using posix_join_two by blast
  have "not_implemented \<noteq> login_failed u" for u
    by (simp add: not_implemented_def login_failed_def)
  with p q show ?thesis
    by (simp add: delete_def mkdir_def rename_def chmod_def getUniqueName_def log_path_def
        not_implemented_def)
qed

section \<open>Reading a file\<close>

text \<open>
  C1, as the code has it. For a session whose working directory is \<open>/a\<close>, \<open>read\<close> with
  the target \<open>/a/b.txt\<close> issues the download request for the joined path
  \<open>/a/a/b.txt\<close>: the target is appended to the working directory and the outcome is
  normalised, so an absolute target does not replace the working directory.
\<close>

theorem read_joins_target_onto_cwd:
  "cwd fs = ''/a'' \<Longrightarrow>
   read fs ''/a/b.txt'' =
     (Inr (download_request fs ''/a/a/b.txt''),
      [log_path fs ''read'' ''/a/a/b.txt'', Http (download_request fs ''/a/a/b.txt'')])
   \<and> map_of (req_form (download_request fs ''/a/a/b.txt'')) ''paths[]'' = Some (JStr ''/a/a/b.txt'')"
  by (simp add: read_def posix_join_def posix_normalize_def download_request_def)

theorem read_joins_target_onto_cwd_witness:
  "cwd (session_at ''/a'') = ''/a'' \<and>
   read (session_at ''/a'') ''/a/b.txt'' =
     (Inr (download_request (session_at ''/a'') ''/a/a/b.txt''),
      [log_path (session_at ''/a'') ''read'' ''/a/a/b.txt'',
       Http (download_request (session_at ''/a'') ''/a/a/b.txt'')])"
proof -
  have c: "cwd (session_at ''/a'') = ''/a''"
    by (simp add: cwd_def session_at_def)
  show ?thesis
    using c read_joins_target_onto_cwd [OF c] by simp
qed

text \<open>
  C1 as stated fails: in the session at \<open>/a\<close>, \<open>read\<close> of \<open>/a/b.txt\<close> neither returns nor
  issues the download request for \<open>/a/b.txt\<close>.
\<close>

theorem read_absolute_target_counterexample:
  "Http (download_request (session_at ''/a'') ''/a/b.txt'')
     \<notin> set (snd (read (session_at ''/a'') ''/a/b.txt''))
   \<and> fst (read (session_at ''/a'') ''/a/b.txt'')
       \<noteq> Inr (download_request (session_at ''/a'') ''/a/b.txt'')"
  by (simp add: read_def posix_join_def posix_normalize_def download_request_def cwd_def
      session_at_def log_path_def)

section \<open>Changing the working directory\<close>

lemma chdir_root: "root (fst (snd (chdir fs t))) = root fs"
  by (simp add: chdir_def Let_def split: sum.split)

lemma chdir_resolves_from_root:
  "posix_join [Some (root fs), Some t] = Inr (cwd (fst (snd (chdir fs (Some t)))))"
proof -
  obtain p where "posix_join [Some (root fs), Some t] = Inr p"
    using posix_join_two by blast
  then show ?thesis
    by (simp add: chdir_def Let_def cwd_def)
qed

text \<open>
  After any non-empty sequence of \<open>chdir\<close> calls the working directory is the last
  target joined onto the root: the targets before it leave no trace.
\<close>

lemma chdir_all_last:
  "ts \<noteq> [] \<Longrightarrow> posix_join [Some (root fs), Some (last ts)] = Inr (cwd (chdir_all fs ts))"
proof (induction ts arbitrary: fs)
  case Nil
  then show ?case by simp
next
  case (Cons t ts)
  show ?case
  proof (cases "ts = []")
    case True
    then show ?thesis by (simp add: chdir_resolves_from_root)
  next
    case False
    with Cons.IH [of "fst (snd (chdir fs (Some t)))"] show ?thesis
      by (simp add: chdir_root)
  qed
qed

text \<open>
  C2. \<open>chdir\<close> joins its target onto \<open>root\<close>, not onto the working directory. From \<open>/\<close>,
  \<open>chdir("a")\<close> then \<open>chdir("b")\<close> ends in \<open>/b\<close>, where resolving each target against
  the working directory gives \<open>/a/b\<close>; \<open>chdir("a/b")\<close> then \<open>chdir("..")\<close> ends in \<open>/\<close>,
  where it gives \<open>/a\<close>. An absolute target and \<open>chdir("..")\<close> from \<open>/\<close> come out as
  they do when resolved against the working directory.
\<close>

theorem chdir_ignores_working_directory:
  "cwd (chdir_all (session_at ''/'') [''a'', ''b'']) = ''/b''
   \<and> spec_changeDirectory_all ''/'' [''a'', ''b''] = ''/a/b''
   \<and> cwd (chdir_all (session_at ''/'') [''a/b'', ''..'']) = ''/''
   \<and> spec_changeDirectory_all ''/'' [''a/b'', ''..''] = ''/a''
   \<and> cwd (chdir_all (session_at ''/'') [''a'', ''/x/y'']) = ''/x/y''
   \<and> spec_changeDirectory_all ''/'' [''a'', ''/x/y''] = ''/x/y''
   \<and> cwd (chdir_all (session_at ''/'') [''..'']) = ''/''
   \<and> spec_changeDirectory_all ''/'' [''..''] = ''/''"
  by (simp add: chdir_def posix_join_def posix_normalize_def cwd_def session_at_def
      spec_resolve_def Let_def)

section \<open>Listing a directory\<close>

text \<open>
  C3. \<open>list\<close> joins its target onto the working directory and \<open>chdir\<close> joins it onto
  \<open>root\<close>, so from \<open>/a\<close> the target \<open>b\<close> is listed as \<open>/a/b\<close> while \<open>chdir\<close> resolves it
  to \<open>/b\<close>.
\<close>

theorem list_and_chdir_resolve_differently:
  "list scripted (session_at ''/a'') (Some ''b'') [Inr (page [])] =
     Some (Inr [], [],
           [log_path (session_at ''/a'') ''list'' ''/a/b'',
            Http (list_request (session_at ''/a'') ''/a/b'' 0)])
   \<and> fst (chdir (session_at ''/a'') (Some ''b'')) = Inr ''/b''"
  by (simp add: list_def list_loop.simps list_pass_def scripted_def page_def body_nodes_def
      maxFiles_def chdir_def posix_join_def posix_normalize_def cwd_def session_at_def Let_def)

subsection \<open>The answers of a remote\<close>

lemma answers_length: "answers remote r qs = (as, r') \<Longrightarrow> length as = length qs"
  by (induction qs arbitrary: r as) (auto split: prod.splits)

lemma answers_append:
  "answers remote r (qs @ qs') =
     (case answers remote r qs of (as, r1) \<Rightarrow>
        (case answers remote r1 qs' of (bs, r2) \<Rightarrow> (as @ bs, r2)))"
  by (induction qs arbitrary: r) (auto split: prod.splits)

lemma answers_snoc_split:
  assumes "answers remote r (qs @ [q]) = (as @ [a], r')" and "length as = length qs"
  shows "\<exists>r1. answers remote r qs = (as, r1) \<and> remote r1 q = (a, r')"
proof -
  obtain bs r1 where 1: "answers remote r qs = (bs, r1)" by (cases "answers remote r qs")
  obtain b r2 where 2: "remote r1 q = (b, r2)" by (cases "remote r1 q")
  from assms(1) 1 2 have "bs @ [b] = as @ [a]" and "r2 = r'"
    by (simp_all add: answers_append)
  with 1 2 show ?thesis by simp
qed

lemma list_loop_full_page:
  assumes "remote r (list_request fs p i) = (Inr res, r1)"
    and "body_nodes res = Some ns" and "length ns = maxFiles"
  shows "list_loop remote fs p (r, i, nds, fetched, evs) =
         list_loop remote fs p
           (r1, Suc i, nds @ map new_StackStats ns, maxFiles, evs @ [Http (list_request fs p i)])"
  using assms by (subst list_loop.simps) (simp add: list_pass_def)

lemma list_loop_short_page:
  assumes "remote r (list_request fs p i) = (Inr res, r1)"
    and "body_nodes res = Some ns" and "length ns \<noteq> maxFiles"
  shows "list_loop remote fs p (r, i, nds, fetched, evs) =
         Some (Inr (nds @ map new_StackStats ns), r1, evs @ [Http (list_request fs p i)])"
  using assms by (subst list_loop.simps) (simp add: list_pass_def)

lemma list_loop_failed_fetch:
  assumes "remote r (list_request fs p i) = (Inl e, r1)"
  shows "list_loop remote fs p (r, i, nds, fetched, evs) =
         Some (Inl e, r1, evs @ [Http (list_request fs p i)])"
  using assms by (subst list_loop.simps) (simp add: list_pass_def)

text \<open>Running the loop is running its passes: enough passes give the outcome.\<close>

lemma list_passes_continue:
  "list_passes remote fs p k st = Inr st' \<Longrightarrow>
   list_loop remote fs p st = list_loop remote fs p st'"
proof (induction k arbitrary: st)
  case 0
  then show ?case by simp
next
  case (Suc k)
  then obtain st1 where 1: "list_pass remote fs p st = Inr st1"
    and 2: "list_passes remote fs p k st1 = Inr st'"
    by (auto split: sum.splits)
  have "list_loop remote fs p st = list_loop remote fs p st1"
    using 1 by (subst list_loop.simps) simp
  with Suc.IH [OF 2] show ?case by simp
qed

lemma list_passes_outcome:
  "list_passes remote fs p k st = Inl outcome \<Longrightarrow> list_loop remote fs p st = Some outcome"
proof (induction k arbitrary: st)
  case 0
  then show ?case by simp
next
  case (Suc k)
  show ?case
  proof (cases "list_pass remote fs p st")
    case (Inl out)
    with Suc.prems have "out = outcome" by simp
    with Inl show ?thesis by (subst list_loop.simps) simp
  next
    case (Inr st1)
    with Suc.prems have "list_passes remote fs p k st1 = Inl outcome" by simp
    from Suc.IH [OF this] Inr show ?thesis by (subst list_loop.simps) simp
  qed
qed

text \<open>
  A run of full pages takes the loop from request \<open>i\<close> to request \<open>i + length ps\<close>,
  with their records appended.
\<close>

lemma list_loop_full_pages:
  assumes "\<forall>q\<in>set ps. length q = maxFiles"
    and "answers remote r (map (list_request fs p) [i..<i + length ps]) = (map Inr rs, r1)"
    and "map body_nodes rs = map Some ps"
  shows "list_loop remote fs p (r, i, nds, fetched, evs) =
         list_loop remote fs p
           (r1, i + length ps, nds @ map new_StackStats (concat ps),
            (if ps = [] then fetched else maxFiles),
            evs @ map (\<lambda>k. Http (list_request fs p k)) [i..<i + length ps])"
  using assms
proof (induction ps arbitrary: r i nds fetched evs rs)
  case Nil
  then show ?case by simp
next
  case (Cons q ps)
  have upt: "[i..<i + length (q # ps)] = i # [Suc i..<Suc i + length ps]"
  proof -
    have "[i..<Suc (i + length ps)] = i # [Suc i..<Suc (i + length ps)]"
      by (rule upt_conv_Cons) simp
    then show ?thesis by simp
  qed
  from Cons.prems(3) obtain res rs' where rs: "rs = res # rs'"
    and res: "body_nodes res = Some q" and rs': "map body_nodes rs' = map Some ps"
    by (cases rs) auto
  obtain a r2 where a: "remote r (list_request fs p i) = (a, r2)"
    by (cases "remote r (list_request fs p i)")
  obtain bs r3 where bs:
    "answers remote r2 (map (list_request fs p) [Suc i..<Suc i + length ps]) = (bs, r3)"
    by (cases "answers remote r2 (map (list_request fs p) [Suc i..<Suc i + length ps])")
  from Cons.prems(2) a bs have eqs: "a = Inr res" "bs = map Inr rs'" "r3 = r1"
    unfolding upt rs by simp_all
  have full: "length q = maxFiles" and rest: "\<forall>q\<in>set ps. length q = maxFiles"
    using Cons.prems(1) by simp_all
  have step: "list_loop remote fs p (r, i, nds, fetched, evs) =
      list_loop remote fs p
        (r2, Suc i, nds @ map new_StackStats q, maxFiles, evs @ [Http (list_request fs p i)])"
    using a eqs(1) res full by (simp add: list_loop_full_page)
  have ih: "list_loop remote fs p
        (r2, Suc i, nds @ map new_StackStats q, maxFiles, evs @ [Http (list_request fs p i)]) =
      list_loop remote fs p
        (r1, Suc i + length ps, (nds @ map new_StackStats q) @ map new_StackStats (concat ps),
         (if ps = [] then maxFiles else maxFiles),
         (evs @ [Http (list_request fs p i)])
           @ map (\<lambda>k. Http (list_request fs p k)) [Suc i..<Suc i + length ps])"
    using rest bs eqs(2,3) rs' by (intro Cons.IH) simp_all
  show ?case
    unfolding step ih upt by simp
qed

lemma session_join: "posix_join [Some (cwd (session_at ''/'')), Some ''docs''] = Inr ''/docs''"
  by (simp add: posix_join_def posix_normalize_def cwd_def session_at_def)

subsection \<open>Pagination\<close>

text \<open>
  C4. When the remote answers the requests of one \<open>list\<close> call with pages of exactly
  100 records followed by a page of fewer than 100 (possibly none), \<open>list\<close> asks for
  the offsets 0, 100, 200, ... in order, one request per page and none after the
  short page, and returns the records of all pages in that order, each mapped by
  \<open>new StackStats\<close>. When the total is a multiple of 100 the short page is empty: the
  last request fetched nothing.
\<close>

theorem list_concatenates_pages:
  assumes "posix_join [Some (cwd fs), target] = Inr p"
    and "\<forall>q\<in>set ps. length q = 100"
    and "length lp < 100"
    and "answers remote r (map (list_request fs p) [0..<Suc (length ps)]) = (map Inr rs, r')"
    and "map body_nodes rs = map Some (ps @ [lp])"
  shows "list remote fs target r =
           Some (Inr (map new_StackStats (concat (ps @ [lp]))), r',
                 log_path fs ''list'' p
                   # map (\<lambda>k. Http (list_request fs p k)) [0..<Suc (length ps)])
         \<and> map (\<lambda>k. map_of (req_qs (list_request fs p k)) ''offset'') [0..<Suc (length ps)]
             = map (\<lambda>k. Some (JNum (int (100 * k)))) [0..<Suc (length ps)]
         \<and> (length (concat (ps @ [lp])) mod 100 = 0 \<longrightarrow> lp = [])"
proof -
  let ?reqs = "map (list_request fs p) [0..<length ps]"
  from assms(5) obtain rs0 res where rs: "rs = rs0 @ [res]"
    and rs0: "map body_nodes rs0 = map Some ps" and res: "body_nodes res = Some lp"
    by (cases rs rule: rev_cases) auto
  have len: "length (map Inr rs0 :: (js_error + http_response) list) = length ?reqs"
    using rs0 by (simp add: map_eq_imp_length_eq [OF rs0])
  have "answers remote r (?reqs @ [list_request fs p (length ps)])
          = (map Inr rs0 @ [Inr res], r')"
    using assms(4) rs by simp
  from answers_snoc_split [OF this len]
  obtain r1 where pre: "answers remote r ?reqs = (map Inr rs0, r1)"
    and fin: "remote r1 (list_request fs p (length ps)) = (Inr res, r')"
    by blast
  have full: "\<forall>q\<in>set ps. length q = maxFiles"
    using assms(2) by (simp add: maxFiles_def)
  have short: "length lp \<noteq> maxFiles"
    using assms(3) by (simp add: maxFiles_def)
  have "list remote fs target r =
      list_loop remote fs p (r, 0, [], 0, [log_path fs ''list'' p])"
    using assms(1) by (simp add: list_def)
  also have "\<dots> = list_loop remote fs p
      (r1, length ps, map new_StackStats (concat ps), (if ps = [] then 0 else maxFiles),
       [log_path fs ''list'' p] @ map (\<lambda>k. Http (list_request fs p k)) [0..<length ps])"
    using list_loop_full_pages [OF full, of remote r fs p 0 rs0 r1 "[]" 0 "[log_path fs ''list'' p]"]
      pre rs0
    by simp
  also have "\<dots> = Some (Inr (map new_StackStats (concat ps) @ map new_StackStats lp), r',
      ([log_path fs ''list'' p] @ map (\<lambda>k. Http (list_request fs p k)) [0..<length ps])
        @ [Http (list_request fs p (length ps))])"
    using fin res short by (rule list_loop_short_page)
  finally have result: "list remote fs target r =
      Some (Inr (map new_StackStats (concat (ps @ [lp]))), r',
            log_path fs ''list'' p # map (\<lambda>k. Http (list_request fs p k)) [0..<Suc (length ps)])"
    by simp
  have offsets: "map (\<lambda>k. map_of (req_qs (list_request fs p k)) ''offset'') [0..<Suc (length ps)]
      = map (\<lambda>k. Some (JNum (int (100 * k)))) [0..<Suc (length ps)]"
    by (simp add: list_request_def maxFiles_def mult.commute)
  have total: "length (concat (ps @ [lp])) = 100 * length ps + length lp"
    using assms(2) by (induction ps) simp_all
  have "lp = []" if "length (concat (ps @ [lp])) mod 100 = 0"
  proof -
    from that total have "length lp mod 100 = 0" by simp
    with assms(3) show ?thesis by simp
  qed
  with result offsets show ?thesis by blast
qed

text \<open>Pages of 100, 100 and 37 records give 237 entries in three requests; 100 and 0 give 100 in two.\<close>

theorem list_concatenates_pages_witness:
  "(\<exists>nds evs.
      list scripted (session_at ''/'') (Some ''docs'')
        [Inr (page (replicate 100 a_file)), Inr (page (replicate 100 a_file)),
         Inr (page (replicate 37 a_file))]
        = Some (Inr nds, [], evs)
      \<and> length nds = 237 \<and> length (filter is_Http evs) = 3)
   \<and> (\<exists>nds evs.
      list scripted (session_at ''/'') (Some ''docs'')
        [Inr (page (replicate 100 a_file)), Inr (page [])]
        = Some (Inr nds, [], evs)
      \<and> length nds = 100 \<and> length (filter is_Http evs) = 2)"
proof -
  let ?fs = "session_at ''/''"
  let ?full = "replicate 100 a_file"
  let ?rest = "replicate 37 a_file"
  have a: "answers scripted [Inr (page ?full), Inr (page ?full), Inr (page ?rest)]
             (map (list_request ?fs ''/docs'') [0..<Suc (length [?full, ?full])])
           = (map Inr [page ?full, page ?full, page ?rest], [])"
    by (simp add: scripted_def)
  have a': "map body_nodes [page ?full, page ?full, page ?rest] = map Some ([?full, ?full] @ [?rest])"
    by (simp add: body_nodes_def page_def)
  have b: "answers scripted [Inr (page ?full), Inr (page [])]
             (map (list_request ?fs ''/docs'') [0..<Suc (length [?full])])
           = (map Inr [page ?full, page []], [])"
    by (simp add: scripted_def)
  have b': "map body_nodes [page ?full, page []] = map Some ([?full] @ [[]])"
    by (simp add: body_nodes_def page_def)
  have "list scripted ?fs (Some ''docs'') [Inr (page ?full), Inr (page ?full), Inr (page ?rest)]
          = Some (Inr (map new_StackStats (concat ([?full, ?full] @ [?rest]))), [],
                  log_path ?fs ''list'' ''/docs''
                    # map (\<lambda>k. Http (list_request ?fs ''/docs'' k)) [0..<Suc (length [?full, ?full])])"
    using list_concatenates_pages [OF session_join _ _ a a'] by simp
  moreover have "list scripted ?fs (Some ''docs'') [Inr (page ?full), Inr (page [])]
          = Some (Inr (map new_StackStats (concat ([?full] @ [[]]))), [],
                  log_path ?fs ''list'' ''/docs''
                    # map (\<lambda>k. Http (list_request ?fs ''/docs'' k)) [0..<Suc (length [?full])])"
    using list_concatenates_pages [OF session_join _ _ b b'] by simp
  ultimately show ?thesis
    by (simp add: log_path_def)
qed

subsection \<open>Failures while listing\<close>

text \<open>
  C5, as the code has it. Whenever a fetch of a \<open>list\<close> call is rejected (the exchange
  fails, no response arrives), after any number of passes through the loop, the call
  fails with that error and returns no records: what was fetched before is dropped.
\<close>

theorem list_fails_when_fetch_rejected:
  assumes "posix_join [Some (cwd fs), target] = Inr p"
    and "list_passes remote fs p k (r, 0, [], 0, [log_path fs ''list'' p])
           = Inr (r1, i, nds, fetched, evs)"
    and "remote r1 (list_request fs p i) = (Inl e, r')"
  shows "list remote fs target r = Some (Inl e, r', evs @ [Http (list_request fs p i)])"
proof -
  have "list remote fs target r = list_loop remote fs p (r, 0, [], 0, [log_path fs ''list'' p])"
    using assms(1) by (simp add: list_def)
  also have "\<dots> = list_loop remote fs p (r1, i, nds, fetched, evs)"
    using assms(2) by (rule list_passes_continue)
  also have "\<dots> = Some (Inl e, r', evs @ [Http (list_request fs p i)])"
    using assms(3) by (rule list_loop_failed_fetch)
  finally show ?thesis .
qed

text \<open>The second of three fetches is rejected: the first page is dropped with the error.\<close>

theorem list_fails_when_fetch_rejected_witness:
  "list scripted (session_at ''/'') (Some ''docs'')
     [Inr (page (replicate 100 a_file)), Inl (RequestError ''ETIMEDOUT''),
      Inr (page (replicate 37 a_file))]
   = Some (Inl (RequestError ''ETIMEDOUT''), [Inr (page (replicate 37 a_file))],
           [log_path (session_at ''/'') ''list'' ''/docs'',
            Http (list_request (session_at ''/'') ''/docs'' 0),
            Http (list_request (session_at ''/'') ''/docs'' 1)])"
proof -
  let ?fs = "session_at ''/''"
  let ?late = "[Inl (RequestError ''ETIMEDOUT''), Inr (page (replicate 37 a_file))]"
  have a: "list_passes scripted ?fs ''/docs'' (Suc 0)
             (Inr (page (replicate 100 a_file)) # ?late, 0, [], 0, [log_path ?fs ''list'' ''/docs''])
           = Inr (?late, 1, map new_StackStats (replicate 100 a_file), 100,
                  [log_path ?fs ''list'' ''/docs'', Http (list_request ?fs ''/docs'' 0)])"
    by (simp add: list_pass_def scripted_def page_def body_nodes_def maxFiles_def)
  have b: "scripted ?late (list_request ?fs ''/docs'' 1)
           = (Inl (RequestError ''ETIMEDOUT''), [Inr (page (replicate 37 a_file))])"
    by (simp add: scripted_def)
  show ?thesis
    using list_fails_when_fetch_rejected [OF session_join a b] by simp
qed

text \<open>The same for a rejected fetch that follows full pages, in terms of the answers.\<close>

lemma list_fails_after_full_pages:
  assumes "posix_join [Some (cwd fs), target] = Inr p"
    and "\<forall>q\<in>set ps. length q = 100"
    and "answers remote r (map (list_request fs p) [0..<Suc (length ps)])
           = (map Inr rs @ [Inl e], r')"
    and "map body_nodes rs = map Some ps"
  shows "list remote fs target r =
           Some (Inl e, r',
                 log_path fs ''list'' p
                   # map (\<lambda>k. Http (list_request fs p k)) [0..<Suc (length ps)])"
proof -
  let ?reqs = "map (list_request fs p) [0..<length ps]"
  have len: "length (map Inr rs :: (js_error + http_response) list) = length ?reqs"
    by (simp add: map_eq_imp_length_eq [OF assms(4)])
  have "answers remote r (?reqs @ [list_request fs p (length ps)]) = (map Inr rs @ [Inl e], r')"
    using assms(3) by simp
  from answers_snoc_split [OF this len]
  obtain r1 where pre: "answers remote r ?reqs = (map Inr rs, r1)"
    and fin: "remote r1 (list_request fs p (length ps)) = (Inl e, r')"
    by blast
  have full: "\<forall>q\<in>set ps. length q = maxFiles"
    using assms(2) by (simp add: maxFiles_def)
  have "list remote fs target r =
      list_loop remote fs p (r, 0, [], 0, [log_path fs ''list'' p])"
    using assms(1) by (simp add: list_def)
  also have "\<dots> = list_loop remote fs p
      (r1, length ps, map new_StackStats (concat ps), (if ps = [] then 0 else maxFiles),
       [log_path fs ''list'' p] @ map (\<lambda>k. Http (list_request fs p k)) [0..<length ps])"
    using list_loop_full_pages [OF full, of remote r fs p 0 rs r1 "[]" 0 "[log_path fs ''list'' p]"]
      pre assms(4)
    by simp
  also have "\<dots> = Some (Inl e, r',
      ([log_path fs ''list'' p] @ map (\<lambda>k. Http (list_request fs p k)) [0..<length ps])
        @ [Http (list_request fs p (length ps))])"
    using fin by (rule list_loop_failed_fetch)
  finally show ?thesis by simp
qed

text \<open>
  C5 as stated fails for a fetch answered with an HTTP error status: \<open>list\<close> does not
  look at the status. When the second of three answers is a 500 without a node list,
  the same offset is asked again and the call returns 137 records; when the first
  answer is a 500, the call returns an empty listing, not an error.
\<close>

theorem list_http_error_counterexample:
  "(\<exists>nds evs.
      list scripted (session_at ''/'') (Some ''docs'')
        [Inr (page (replicate 100 a_file)), Inr (status_only 500),
         Inr (page (replicate 37 a_file))]
        = Some (Inr nds, [], evs) \<and> length nds = 137)
   \<and> (\<exists>evs. list scripted (session_at ''/'') (Some ''docs'') [Inr (status_only 500)]
        = Some (Inr [], [], evs))"
  by (simp add: list_def session_join list_loop.simps list_pass_def scripted_def page_def
      status_only_def body_nodes_def maxFiles_def)

section \<open>Logging in\<close>

lemma indexOf_first:
  "c \<notin> set s \<Longrightarrow> indexOf (s @ c # t) c = int (length s)"
  by (induction s) (auto simp: Let_def)

lemma substr_before: "substr (s @ t) 0 (Some (int (length s))) = s"
  by (simp add: substr_def Let_def)

lemma substr_after: "substr (s @ c # t) (int (length s) + 1) None = t"
  by (simp add: substr_def Let_def nat_add_distrib)

lemma login_failed_inject: "login_failed u = login_failed v \<Longrightarrow> u = v"
  by (simp add: login_failed_def)

text \<open>
  C6. For every identity \<open>share@domain\<close> (the share has no \<open>@\<close>) and every password, when
  the login endpoint answers with status 200, \<open>create\<close> returns a session with the base
  URL of the share, the token and cookies of the response and the working directory
  \<open>/\<close>, and the login handler resolves with it; for any other status \<open>create\<close> fails
  with the error whose message is \<open>STACK login failed for user '<identity>'.\<close>, and the
  handler rejects with it, so no session reaches the caller. The message determines
  the identity: two identities never give the same login error.
\<close>

theorem create_succeeds_only_on_200:
  assumes "CHR ''@'' \<notin> set share"
    and "remote r (login_request (''https://'' @ domain @ ''/public-share/'' @ share @ ''/'') password)
           = (Inr res, r')"
  shows "(statusCode res = 200 \<longrightarrow>
            create remote conn (share @ ''@'' @ domain) password r =
              (Inr \<lparr> connection = conn, root = ''/'', workingDir = ''/'',
                     baseUrl = ''https://'' @ domain @ ''/public-share/'' @ share @ ''/'',
                     csrfToken = (case map_of (res_headers res) ''csrf-token'' of
                                    None \<Rightarrow> JUndefined | Some t \<Rightarrow> JStr t),
                     cookieJar = res_cookies res \<rparr>, r',
               [Log [(''action'', JStr ''create''), (''username'', JStr (share @ ''@'' @ domain))],
                Http (login_request (''https://'' @ domain @ ''/public-share/'' @ share @ ''/'')
                        password)])
            \<and> (\<exists>fs. fst (on_login remote
                    \<lparr> data_connection = conn, data_username = share @ ''@'' @ domain,
                      data_password = password \<rparr> r) = Resolve fs
                  \<and> Inr fs = fst (create remote conn (share @ ''@'' @ domain) password r)
                  \<and> currentDirectory fs = ''/''))
         \<and> (statusCode res \<noteq> 200 \<longrightarrow>
            fst (create remote conn (share @ ''@'' @ domain) password r)
              = Inl (Error (''STACK login failed for user '' @ [CHR 0x27] @ share @ ''@'' @ domain
                              @ [CHR 0x27] @ ''.''))
            \<and> fst (on_login remote
                    \<lparr> data_connection = conn, data_username = share @ ''@'' @ domain,
                      data_password = password \<rparr> r)
              = Reject (Error (''STACK login failed for user '' @ [CHR 0x27] @ share @ ''@'' @ domain
                                 @ [CHR 0x27] @ ''.'')))
         \<and> (\<forall>u. login_failed u
                  = Error (''STACK login failed for user '' @ [CHR 0x27] @ u @ [CHR 0x27] @ ''.''))
         \<and> (\<forall>u v. login_failed u = login_failed v \<longrightarrow> u = v)"
proof -
  have at: "indexOf (share @ CHR ''@'' # domain) CHR ''@'' = int (length share)"
    using assms(1) by (rule indexOf_first)
  have dom: "substr (share @ CHR ''@'' # domain) (int (length share) + 1) None = domain"
    by (rule substr_after)
  have message: "login_failed u
      = Error (''STACK login failed for user '' @ [CHR 0x27] @ u @ [CHR 0x27] @ ''.'')" for u
    by (simp add: login_failed_def)
  have inject: "u = v" if "login_failed u = login_failed v" for u v
    using that by (simp add: login_failed_def)
  have outcome: "(statusCode res = 200 \<longrightarrow>
            create remote conn (share @ ''@'' @ domain) password r =
              (Inr \<lparr> connection = conn, root = ''/'', workingDir = ''/'',
                     baseUrl = ''https://'' @ domain @ ''/public-share/'' @ share @ ''/'',
                     csrfToken = (case map_of (res_headers res) ''csrf-token'' of
                                    None \<Rightarrow> JUndefined | Some t \<Rightarrow> JStr t),
                     cookieJar = res_cookies res \<rparr>, r',
               [Log [(''action'', JStr ''create''), (''username'', JStr (share @ ''@'' @ domain))],
                Http (login_request (''https://'' @ domain @ ''/public-share/'' @ share @ ''/'')
                        password)])
            \<and> (\<exists>fs. fst (on_login remote
                    \<lparr> data_connection = conn, data_username = share @ ''@'' @ domain,
                      data_password = password \<rparr> r) = Resolve fs
                  \<and> Inr fs = fst (create remote conn (share @ ''@'' @ domain) password r)
                  \<and> currentDirectory fs = ''/''))
         \<and> (statusCode res \<noteq> 200 \<longrightarrow>
            fst (create remote conn (share @ ''@'' @ domain) password r)
              = Inl (Error (''STACK login failed for user '' @ [CHR 0x27] @ share @ ''@'' @ domain
                              @ [CHR 0x27] @ ''.''))
            \<and> fst (on_login remote
                    \<lparr> data_connection = conn, data_username = share @ ''@'' @ domain,
                      data_password = password \<rparr> r)
              = Reject (Error (''STACK login failed for user '' @ [CHR 0x27] @ share @ ''@'' @ domain
                                 @ [CHR 0x27] @ ''.'')))"
    using assms(2)
    by (simp add: create_def on_login_def at substr_before dom Let_def currentDirectory_def
        cwd_def login_failed_def)
  from outcome message inject show ?thesis by blast
qed

theorem create_succeeds_only_on_200_witness:
  "create scripted \<lparr> conn_id = ''conn-1'' \<rparr> ''docs@stack.example.com'' ''secret''
       [Inr \<lparr> statusCode = 200, res_headers = [(''csrf-token'', ''token'')],
              res_cookies = [''session=1''], res_body = None \<rparr>]
     = (Inr (session_at ''/''), [],
        [Log [(''action'', JStr ''create''), (''username'', JStr ''docs@stack.example.com'')],
         Http (login_request ''https://stack.example.com/public-share/docs/'' ''secret'')])
   \<and> fst (on_login scripted
            \<lparr> data_connection = \<lparr> conn_id = ''conn-1'' \<rparr>,
              data_username = ''docs@stack.example.com'', data_password = ''wrong'' \<rparr>
            [Inr (status_only 403)])
       = Reject (Error (''STACK login failed for user '' @ [CHR 0x27] @ ''docs@stack.example.com''
                        @ [CHR 0x27] @ ''.''))"
proof -
  let ?ok = "\<lparr> statusCode = 200, res_headers = [(''csrf-token'', ''token'')],
                 res_cookies = [''session=1''], res_body = None \<rparr>"
  have s: "CHR ''@'' \<notin> set ''docs''" by simp
  have a: "scripted [Inr ?ok]
             (login_request (''https://'' @ ''stack.example.com'' @ ''/public-share/'' @ ''docs'' @ ''/'')
                ''secret'') = (Inr ?ok, [])"
    by (simp add: scripted_def)
  have b: "scripted [Inr (status_only 403)]
             (login_request (''https://'' @ ''stack.example.com'' @ ''/public-share/'' @ ''docs'' @ ''/'')
                ''wrong'') = (Inr (status_only 403), [])"
    by (simp add: scripted_def)
  from create_succeeds_only_on_200 [where share = "''docs''" and domain = "''stack.example.com''"
      and remote = scripted and conn = "\<lparr> conn_id = ''conn-1'' \<rparr>", OF s a]
  have 1: "create scripted \<lparr> conn_id = ''conn-1'' \<rparr> ''docs@stack.example.com'' ''secret'' [Inr ?ok]
     = (Inr (session_at ''/''), [],
        [Log [(''action'', JStr ''create''), (''username'', JStr ''docs@stack.example.com'')],
         Http (login_request ''https://stack.example.com/public-share/docs/'' ''secret'')])"
    by (auto simp: session_at_def)
  from create_succeeds_only_on_200 [where share = "''docs''" and domain = "''stack.example.com''"
      and remote = scripted and conn = "\<lparr> conn_id = ''conn-1'' \<rparr>", OF s b]
  have 2: "fst (on_login scripted
            \<lparr> data_connection = \<lparr> conn_id = ''conn-1'' \<rparr>,
              data_username = ''docs@stack.example.com'', data_password = ''wrong'' \<rparr>
            [Inr (status_only 403)])
       = Reject (Error (''STACK login failed for user '' @ [CHR 0x27] @ ''docs@stack.example.com''
                        @ [CHR 0x27] @ ''.''))"
    by (auto simp: status_only_def)
  from 1 2 show ?thesis by simp
qed

end
